theory Spec2Isabelle
  imports Complex_Main
begin

section \<open>Data model of the dashboard (dashboard/models.py)\<close>

text \<open>
  The Django models are flat rows; each table is a list of records in table order.
  Python floats are modelled by exact real numbers: every arithmetic operation of the
  views is taken without rounding, and the non-finite floats (NaN, infinities) are
  outside the model. A \<open>DateTimeField\<close> is an integer count of microseconds.
  Columns a view guards with \<open>x or 0\<close> or \<open>if x\<close> are optional here, since the
  tables of the mobile application are unmanaged and the views expect NULLs in them.
  Columns that no modelled view reads or writes (price, cost, image, creation time) are
  left out of the records. A write to the database is taken to succeed.
\<close>

type_synonym datetime = int

record Product =
  id :: string
  firebase_id :: "string option"
  name :: string
  category :: string
  unit :: string
  quantity :: "real option"
  inventory_a :: "real option"
  inventory_b :: "real option"
  updated_at :: "datetime option"

record Sale =
  product_firebase_id :: "string option"
  product_name :: string
  quantity :: "real option"
  order_date :: "datetime option"

record Recipe =
  id :: string
  firebase_id :: string
  product_firebase_id :: string
  product_name :: string

record RecipeIngredient =
  id :: string
  recipe_firebase_id :: string
  ingredient_firebase_id :: "string option"
  ingredient_name :: "string option"
  quantity_needed :: "real option"
  recipe_id :: "string option"

section \<open>Python and ORM primitives\<close>

datatype pyexn =
    JSONDecodeError
  | FloatConversionError
  | MultipleObjectsReturned_exn
  | ValueError_min_empty

text \<open>\<open>Model.objects.get\<close>: exactly one matching row, or one of two exceptions.\<close>

datatype 'a lookup = DoesNotExist | MultipleObjectsReturned | Found 'a

definition objects_get :: "('a \<Rightarrow> bool) \<Rightarrow> 'a list \<Rightarrow> 'a lookup" where
  "objects_get P rows =
     (case filter P rows of
        [] \<Rightarrow> DoesNotExist
      | [r] \<Rightarrow> Found r
      | _ # _ # _ \<Rightarrow> MultipleObjectsReturned)"

text \<open>\<open>float(x or 0)\<close> on an optional float column.\<close>

definition float_or0 :: "real option \<Rightarrow> real" where
  "float_or0 x = (case x of None \<Rightarrow> 0 | Some v \<Rightarrow> v)"




section \<open>calculate\_max\_servings (dashboard/views.py, lines 35-110)\<close>







section \<open>Requests, responses and the database\<close>

record User =
  id :: string
  username :: string

text \<open>
  The value of \<open>data.get('quantity', 0)\<close> before \<open>float(...)\<close>: the key is absent,
  or holds something \<open>float\<close> accepts (a JSON number or a numeric string), or
  something \<open>float\<close> raises on.
\<close>

datatype raw_number = Absent | Numeric real | NonNumeric

record payload =
  productId :: "string option"
  quantity :: raw_number
  reason :: "string option"

text \<open>
  \<open>body = None\<close>: \<open>json.loads(request.body)\<close> raises, or the document is not an
  object.
\<close>

record HttpRequest =
  body :: "payload option"
  user :: User

text \<open>
  The messages are f-strings; the model keeps the template and the values put into it,
  not the formatted text.
\<close>

datatype message =
    Invalid_product_or_quantity
  | Product_not_found
  | Insufficient_stock_in_Inventory_A real
  | Insufficient_stock_in_Inventory_B real
  | Successfully_transferred real string
  | Successfully_recorded_waste real string
  | Insufficient_data_for_training nat
  | Model_trained_successfully nat nat
  | str_of_exception pyexn

datatype audit_details =
    Transferred_from_A_to_B real string
  | Recorded_as_waste real string string
  | Trained_ML_model nat nat

record JsonResponse =
  success :: bool
  message :: message
  newInventoryA :: "real option"
  newInventoryB :: "real option"
  stats :: "(nat \<times> nat \<times> nat) option"

record WasteLog =
  product_firebase_id :: string
  product_name :: string
  quantity :: real
  reason :: string
  waste_date :: datetime
  recorded_by :: string
  category :: string

record AuditTrail =
  action :: string
  user_id :: string
  user_name :: string
  details :: audit_details
  timestamp :: datetime

record MLPrediction =
  product_firebase_id :: string
  product_name :: string
  predicted_daily_usage :: real
  avg_daily_usage :: real
  trend :: real
  confidence_score :: real
  data_points :: nat
  last_updated :: datetime

record MLModel =
  name :: string
  is_trained :: bool
  last_trained :: "datetime option"
  total_records :: nat
  products_analyzed :: nat
  predictions_generated :: nat
  accuracy :: int
  model_type :: string
  training_period_days :: int

text \<open>
  The tables. \<open>ml_predictions\<close> and \<open>ml_models\<close> are created by Django with a
  unique key column (\<open>product_firebase_id\<close>, \<open>name\<close>), so they are maps from that key.
\<close>

record database =
  Product_objects :: "Product list"
  Sale_objects :: "Sale list"
  WasteLog_objects :: "WasteLog list"
  AuditTrail_objects :: "AuditTrail list"
  MLPrediction_objects :: "string \<rightharpoonup> MLPrediction"
  MLModel_objects :: "string \<rightharpoonup> MLModel"

definition failure :: "message \<Rightarrow> JsonResponse" where
  "failure m =
     \<lparr>success = False, message = m, newInventoryA = None, newInventoryB = None, stats = None\<rparr>"

text \<open>\<open>float(data.get('quantity', 0))\<close>.\<close>

definition float_of_field :: "raw_number \<Rightarrow> pyexn + real" where
  "float_of_field v =
     (case v of Absent \<Rightarrow> Inr 0 | Numeric x \<Rightarrow> Inr x | NonNumeric \<Rightarrow> Inl FloatConversionError)"

text \<open>\<open>product.firebase_id or str(product.id)\<close>.\<close>

definition firebase_id_or_id :: "Product \<Rightarrow> string" where
  "firebase_id_or_id product =
     (case Product.firebase_id product of
        None \<Rightarrow> Product.id product
      | Some f \<Rightarrow> if f = [] then Product.id product else f)"

text \<open>
  \<open>product.save()\<close>: the row with the product's primary key is replaced (inserted when
  there is none), and \<open>updated_at\<close> is set by \<open>auto_now\<close>.
\<close>

definition save_product :: "datetime \<Rightarrow> Product \<Rightarrow> Product list \<Rightarrow> Product list" where
  "save_product now product rows =
     (let saved = product\<lparr>updated_at := Some now\<rparr>
      in if \<exists>r \<in> set rows. Product.id r = Product.id product
         then map (\<lambda>r. if Product.id r = Product.id product then saved else r) rows
         else rows @ [saved])"

text \<open>
  \<open>log_audit\<close> (lines 139-150) appends one row; its own handler swallows every
  exception, so it always returns.
\<close>

definition log_audit :: "datetime \<Rightarrow> string \<Rightarrow> User \<Rightarrow> audit_details \<Rightarrow> database \<Rightarrow> database" where
  "log_audit now act usr det db =
     db\<lparr>AuditTrail_objects := AuditTrail_objects db @
          [\<lparr>action = act, user_id = User.id usr, user_name = username usr,
            details = det, timestamp = now\<rparr>]\<rparr>"

text \<open>\<open>Product.objects.get(Q(firebase_id=product_id) | Q(id=product_id))\<close>.\<close>

definition get_product :: "Product list \<Rightarrow> string \<Rightarrow> Product lookup" where
  "get_product rows pid =
     objects_get (\<lambda>p. Product.firebase_id p = Some pid \<or> Product.id p = pid) rows"

text \<open>The \<open>except Exception as e\<close> clause of the three handlers.\<close>

definition except_response :: "pyexn \<Rightarrow> JsonResponse" where
  "except_response e = failure (str_of_exception e)"

definition handle ::
  "database \<times> (pyexn + JsonResponse) \<Rightarrow> database \<times> JsonResponse" where
  "handle outcome =
     (case outcome of
        (db, Inl e) \<Rightarrow> (db, except_response e)
      | (db, Inr response) \<Rightarrow> (db, response))"

section \<open>transfer\_inventory\_api (lines 1377-1433)\<close>

text \<open>
  The \<open>try\<close> block: the database it leaves, and either the exception it raises or the
  response it returns.
\<close>

definition transfer_inventory_try ::
  "datetime \<Rightarrow> database \<Rightarrow> HttpRequest \<Rightarrow> database \<times> (pyexn + JsonResponse)" where
  "transfer_inventory_try now db request =
     (case body request of
        None \<Rightarrow> (db, Inl JSONDecodeError)
      | Some data \<Rightarrow>
          (case float_of_field (payload.quantity data) of
             Inl e \<Rightarrow> (db, Inl e)
           | Inr transfer_qty \<Rightarrow>
               (case productId data of
                  None \<Rightarrow> (db, Inr (failure Invalid_product_or_quantity))
                | Some pid \<Rightarrow>
                    if pid = [] \<or> transfer_qty \<le> 0
                    then (db, Inr (failure Invalid_product_or_quantity))
                    else
                      (case get_product (Product_objects db) pid of
                         DoesNotExist \<Rightarrow> (db, Inr (failure Product_not_found))
                       | MultipleObjectsReturned \<Rightarrow> (db, Inl MultipleObjectsReturned_exn)
                       | Found product \<Rightarrow>
                           (let inv_a = float_or0 (Product.inventory_a product);
                                inv_b = float_or0 (Product.inventory_b product)
                            in if inv_a < transfer_qty
                               then (db, Inr (failure (Insufficient_stock_in_Inventory_A inv_a)))
                               else
                                 (let new_inventory_a = inv_a - transfer_qty;
                                      new_inventory_b = inv_b + transfer_qty;
                                      db1 = db\<lparr>Product_objects :=
                                              save_product now
                                                (product\<lparr>inventory_a := Some new_inventory_a,
                                                         inventory_b := Some new_inventory_b\<rparr>)
                                                (Product_objects db)\<rparr>;
                                      db2 = log_audit now ''Inventory Transfer'' (user request)
                                              (Transferred_from_A_to_B transfer_qty
                                                 (Product.name product)) db1
                                  in (db2,
                                      Inr \<lparr>success = True,
                                           message = Successfully_transferred transfer_qty
                                                       (Product.name product),
                                           newInventoryA = Some new_inventory_a,
                                           newInventoryB = Some new_inventory_b,
                                           stats = None\<rparr>)))))))"

definition transfer_inventory_api ::
  "datetime \<Rightarrow> database \<Rightarrow> HttpRequest \<Rightarrow> database \<times> JsonResponse" where
  "transfer_inventory_api now db request = handle (transfer_inventory_try now db request)"

section \<open>add\_waste\_api (lines 1442-1506)\<close>




section \<open>train\_forecasting\_model (lines 1835-1922)\<close>

text \<open>\<open>timedelta.days\<close>: whole days, rounded down.\<close>

definition timedelta_days :: "int \<Rightarrow> int" where
  "timedelta_days delta = delta div 86400000000"

text \<open>
  Lines 1856-1859. A filter on \<open>None\<close> is \<open>IS NULL\<close> in the ORM, so the ids are
  compared as optional values.
\<close>

definition product_sales_of :: "Sale list \<Rightarrow> Product \<Rightarrow> Sale list" where
  "product_sales_of rows product =
     filter (\<lambda>s. Sale.product_firebase_id s = Product.firebase_id product
                \<or> Sale.product_name s = Product.name product) rows"

text \<open>Line 1871: the quantities that are neither \<open>None\<close> nor zero are added up.\<close>

definition total_quantity_of :: "Sale list \<Rightarrow> real" where
  "total_quantity_of sales_data =
     sum_list (map (\<lambda>s. float_or0 (Sale.quantity s))
                 (filter (\<lambda>s. case Sale.quantity s of None \<Rightarrow> False | Some q \<Rightarrow> q \<noteq> 0)
                    sales_data))"

text \<open>Line 1872: the order dates that are not \<open>None\<close>.\<close>

definition order_dates_of :: "Sale list \<Rightarrow> datetime list" where
  "order_dates_of sales_data = List.map_filter order_date sales_data"

definition days_since :: "datetime \<Rightarrow> datetime \<Rightarrow> int" where
  "days_since now earliest =
     (let d = timedelta_days (now - earliest) in if d = 0 then 1 else d)"

text \<open>
  Lines 1854-1889, the body of the loop for one product. The state is the prediction
  table and \<open>predictions_created\<close>. \<open>min\<close> of no dates raises.
\<close>

definition train_product ::
  "datetime \<Rightarrow> Sale list \<Rightarrow> Product \<Rightarrow> (string \<rightharpoonup> MLPrediction) \<times> nat
     \<Rightarrow> pyexn + (string \<rightharpoonup> MLPrediction) \<times> nat" where
  "train_product now rows product st =
     (let product_sales = product_sales_of rows product
      in if length product_sales < 3 then Inr st
         else
           (let sales_data = product_sales
            in if sales_data = [] then Inr st
               else
                 (let total_quantity = total_quantity_of sales_data
                  in if order_dates_of sales_data = [] then Inl ValueError_min_empty
                     else
                       (let days = days_since now (min_list (order_dates_of sales_data));
                            avg = total_quantity / real_of_int (max days 1);
                            predicted = avg * 1.1;
                            k = firebase_id_or_id product
                        in Inr ((fst st)(k \<mapsto>
                                  \<lparr>MLPrediction.product_firebase_id = k,
                                   MLPrediction.product_name = Product.name product,
                                   predicted_daily_usage = predicted,
                                   avg_daily_usage = avg,
                                   trend = 0,
                                   confidence_score =
                                     min 0.9 (0.5 + real (length sales_data) / 100),
                                   data_points = length sales_data,
                                   last_updated = now\<rparr>),
                                snd st + 1)))))"

text \<open>
  The loop over the products. An exception leaves the loop with the predictions written
  so far.
\<close>

fun train_loop ::
  "datetime \<Rightarrow> Sale list \<Rightarrow> Product list \<Rightarrow> (string \<rightharpoonup> MLPrediction) \<times> nat
     \<Rightarrow> ((string \<rightharpoonup> MLPrediction) \<times> nat) \<times> pyexn option" where
  "train_loop now rows [] st = (st, None)"
| "train_loop now rows (product # rest) st =
     (case train_product now rows product st of
        Inl e \<Rightarrow> (st, Some e)
      | Inr st' \<Rightarrow> train_loop now rows rest st')"

definition train_forecasting_try ::
  "datetime \<Rightarrow> database \<Rightarrow> HttpRequest \<Rightarrow> database \<times> (pyexn + JsonResponse)" where
  "train_forecasting_try now db request =
     (let sales_count = length (Sale_objects db)
      in if sales_count < 10
         then (db, Inr (failure (Insufficient_data_for_training sales_count)))
         else
           (case train_loop now (Sale_objects db) (Product_objects db)
                   (MLPrediction_objects db, 0) of
              ((predictions, predictions_created), Some e) \<Rightarrow>
                (db\<lparr>MLPrediction_objects := predictions\<rparr>, Inl e)
            | ((predictions, predictions_created), None) \<Rightarrow>
                (let db1 = db\<lparr>MLPrediction_objects := predictions\<rparr>;
                     db2 = db1\<lparr>MLModel_objects := (MLModel_objects db1)
                             (''inventory_forecasting'' \<mapsto>
                                \<lparr>MLModel.name = ''inventory_forecasting'',
                                 is_trained = True,
                                 last_trained = Some now,
                                 total_records = sales_count,
                                 products_analyzed = length (Product_objects db),
                                 predictions_generated = predictions_created,
                                 accuracy = 85,
                                 model_type = ''Linear Regression (Moving Average)'',
                                 training_period_days = 90\<rparr>)\<rparr>;
                     db3 = log_audit now ''Model Trained'' (user request)
                             (Trained_ML_model sales_count predictions_created) db2
                 in (db3,
                     Inr \<lparr>success = True,
                          message = Model_trained_successfully (length (Product_objects db))
                                      predictions_created,
                          newInventoryA = None,
                          newInventoryB = None,
                          stats = Some (sales_count, length (Product_objects db),
                                        predictions_created)\<rparr>))))"

definition train_forecasting_model ::
  "datetime \<Rightarrow> database \<Rightarrow> HttpRequest \<Rightarrow> database \<times> JsonResponse" where
  "train_forecasting_model now db request = handle (train_forecasting_try now db request)"

section \<open>inventory\_forecasting\_view (lines 1692-1788)\<close>












record forecast_row =
  product_id :: string
  product_name :: string
  category :: string
  current_stock :: real
  unit :: string
  avg_daily_usage :: real
  days_left :: "int option"
  depletion_date :: "datetime option"
  status :: string
  status_label :: string
  predicted_usage :: real
  reorder_qty :: real
  confidence :: int







section \<open>Closed forms used in the statements\<close>






text \<open>
  What the loop of \<open>train_forecasting_model\<close> does with one product: whether it has
  the 3 sales records of line 1861, and the row it writes.
\<close>

definition enough_sales :: "Sale list \<Rightarrow> Product \<Rightarrow> bool" where
  "enough_sales rows product = (3 \<le> length (product_sales_of rows product))"

definition prediction_written :: "datetime \<Rightarrow> Sale list \<Rightarrow> Product \<Rightarrow> MLPrediction" where
  "prediction_written now rows product =
     (let sales_data = product_sales_of rows product;
          avg = total_quantity_of sales_data
                  / real_of_int (max (days_since now (min_list (order_dates_of sales_data))) 1)
      in \<lparr>MLPrediction.product_firebase_id = firebase_id_or_id product,
          MLPrediction.product_name = Product.name product,
          predicted_daily_usage = avg * 1.1,
          avg_daily_usage = avg,
          trend = 0,
          confidence_score = min 0.9 (0.5 + real (length sales_data) / 100),
          data_points = length sales_data,
          last_updated = now\<rparr>)"


section \<open>Sample data\<close>

definition flour :: "real \<Rightarrow> Product" where
  "flour b = \<lparr>Product.id = ''p1'', firebase_id = Some ''flour'', name = ''Flour'',
     category = ''Ingredients'', unit = ''g'', quantity = Some b, inventory_a = Some 0,
     inventory_b = Some b, updated_at = None\<rparr>"





definition beans :: "real \<Rightarrow> real \<Rightarrow> Product" where
  "beans a b = \<lparr>Product.id = ''p3'', firebase_id = Some ''beans'', name = ''Beans'',
     category = ''Ingredients'', unit = ''g'', quantity = Some a, inventory_a = Some a,
     inventory_b = Some b, updated_at = None\<rparr>"

definition stock_db :: "Product list \<Rightarrow> database" where
  "stock_db rows = \<lparr>Product_objects = rows, Sale_objects = [], WasteLog_objects = [],
     AuditTrail_objects = [], MLPrediction_objects = Map.empty, MLModel_objects = Map.empty\<rparr>"

definition admin :: User where
  "admin = \<lparr>User.id = ''1'', username = ''admin''\<rparr>"

definition request_for :: "string \<Rightarrow> raw_number \<Rightarrow> HttpRequest" where
  "request_for pid n =
     \<lparr>body = Some \<lparr>productId = Some pid, payload.quantity = n, payload.reason = None\<rparr>,
      user = admin\<rparr>"

definition bean_sale :: "real \<Rightarrow> datetime \<Rightarrow> Sale" where
  "bean_sale q d = \<lparr>Sale.product_firebase_id = Some ''beans'', Sale.product_name = ''Beans'',
     Sale.quantity = Some q, order_date = Some d\<rparr>"

definition ten_sales :: "Sale list" where
  "ten_sales = [bean_sale 3 432000000000, bean_sale 3 0, bean_sale 3 86400000000,
     bean_sale 3 86400000000, bean_sale 3 172800000000, bean_sale 3 172800000000,
     bean_sale 3 259200000000, bean_sale 3 259200000000, bean_sale 3 345600000000,
     bean_sale 3 432000000000]"

definition training_db :: database where
  "training_db = \<lparr>Product_objects = [beans 10 2, flour 7], Sale_objects = ten_sales,
     WasteLog_objects = [], AuditTrail_objects = [], MLPrediction_objects = Map.empty,
     MLModel_objects = Map.empty\<rparr>"

definition train_request :: HttpRequest where
  "train_request = \<lparr>body = None, user = admin\<rparr>"






section \<open>Properties of calculate\_max\_servings\<close>








section \<open>Properties of the transfer and waste handlers\<close>

lemma objects_get_Found: "objects_get P rows = Found r \<Longrightarrow> filter P rows = [r]"
  by (auto simp: objects_get_def split: list.splits)

lemma objects_get_single: "filter P rows = [r] \<Longrightarrow> objects_get P rows = Found r"
  by (simp add: objects_get_def)

lemma save_product_replaces:
  assumes d: "distinct (map Product.id rows)" and m: "product \<in> set rows"
    and i: "Product.id product' = Product.id product"
  shows "save_product now product' rows =
           map (\<lambda>r. if r = product then product'\<lparr>updated_at := Some now\<rparr> else r) rows"
proof -
  have inj: "inj_on Product.id (set rows)"
    using d by (simp add: distinct_map)
  have eq: "\<And>r. r \<in> set rows \<Longrightarrow> (Product.id r = Product.id product') = (r = product)"
    using inj m i by (auto dest: inj_onD)
  have ex: "\<exists>r \<in> set rows. Product.id r = Product.id product'"
    using m i by auto
  show ?thesis
    using ex eq by (simp add: save_product_def Let_def cong: map_cong)
qed

lemma get_product_after_save:
  assumes d: "distinct (map Product.id rows)"
    and g: "get_product rows pid = Found product"
    and i: "Product.id product' = Product.id product"
    and f: "Product.firebase_id product' = Product.firebase_id product"
  shows "get_product (save_product now product' rows) pid = Found (product'\<lparr>updated_at := Some now\<rparr>)"
proof -
  let ?P = "\<lambda>p. Product.firebase_id p = Some pid \<or> Product.id p = pid"
  let ?saved = "product'\<lparr>updated_at := Some now\<rparr>"
  let ?g = "\<lambda>r. if r = product then ?saved else r"
  have fl: "filter ?P rows = [product]"
    using g by (simp add: get_product_def objects_get_Found)
  then have "product \<in> set (filter ?P rows)" by simp
  then have m: "product \<in> set rows" and Pp: "?P product" by auto
  have Pg: "\<And>r. ?P (?g r) = ?P r"
    using Pp i f by auto
  have "filter ?P (map ?g rows) = map ?g (filter (?P \<circ> ?g) rows)"
    by (simp add: filter_map)
  also have "(?P \<circ> ?g) = ?P"
    using Pg by (auto simp: fun_eq_iff)
  finally have "filter ?P (map ?g rows) = [?saved]"
    using fl by simp
  then show ?thesis
    by (simp add: get_product_def objects_get_single save_product_replaces [OF d m i])
qed

lemma transfer_found:
  assumes "body request = Some data"
    and "float_of_field (payload.quantity data) = Inr q"
    and "productId data = Some pid" and "pid \<noteq> []"
    and "get_product (Product_objects db) pid = Found product"
  shows "transfer_inventory_api now db request =
     (if q \<le> 0 then (db, failure Invalid_product_or_quantity)
      else if float_or0 (inventory_a product) < q
      then (db, failure (Insufficient_stock_in_Inventory_A (float_or0 (inventory_a product))))
      else (log_audit now ''Inventory Transfer'' (user request)
              (Transferred_from_A_to_B q (Product.name product))
              (db\<lparr>Product_objects := save_product now
                    (product\<lparr>inventory_a := Some (float_or0 (inventory_a product) - q),
                             inventory_b := Some (float_or0 (inventory_b product) + q)\<rparr>)
                    (Product_objects db)\<rparr>),
            \<lparr>success = True, message = Successfully_transferred q (Product.name product),
             newInventoryA = Some (float_or0 (inventory_a product) - q),
             newInventoryB = Some (float_or0 (inventory_b product) + q), stats = None\<rparr>))"
  using assms by (simp add: transfer_inventory_api_def transfer_inventory_try_def handle_def Let_def)

lemma success_failure [simp]: "success (failure m) = False"
  by (simp add: failure_def)

lemma products_log_audit [simp]: "Product_objects (log_audit now a u d db) = Product_objects db"
  by (simp add: log_audit_def)

lemma wastelogs_log_audit [simp]: "WasteLog_objects (log_audit now a u d db) = WasteLog_objects db"
  by (simp add: log_audit_def)

lemma transfer_outcome:
  assumes "body request = Some data"
    and "float_of_field (payload.quantity data) = Inr q"
    and "productId data = Some pid" and "pid \<noteq> []"
    and "distinct (map Product.id (Product_objects db))"
    and "get_product (Product_objects db) pid = Found product"
    and "transfer_inventory_api now db request = (db', r)"
  shows "if 0 < q \<and> q \<le> float_or0 (inventory_a product)
         then success r
            \<and> newInventoryA r = Some (float_or0 (inventory_a product) - q)
            \<and> newInventoryB r = Some (float_or0 (inventory_b product) + q)
            \<and> get_product (Product_objects db') pid =
                Found (product\<lparr>inventory_a := Some (float_or0 (inventory_a product) - q),
                               inventory_b := Some (float_or0 (inventory_b product) + q),
                               updated_at := Some now\<rparr>)
         else \<not> success r \<and> db' = db"
proof -
  note tf = transfer_found [OF assms(1-4,6), of now]
  show ?thesis
  proof (cases "0 < q \<and> q \<le> float_or0 (inventory_a product)")
    case False
    then show ?thesis using tf assms(7) by (auto split: if_splits)
  next
    case True
    let ?p' = "product\<lparr>inventory_a := Some (float_or0 (inventory_a product) - q),
                             inventory_b := Some (float_or0 (inventory_b product) + q)\<rparr>"
    have r: "success r" "newInventoryA r = Some (float_or0 (inventory_a product) - q)"
        "newInventoryB r = Some (float_or0 (inventory_b product) + q)"
      and db': "Product_objects db' = save_product now ?p' (Product_objects db)"
      using True tf assms(7) by auto
    have "get_product (Product_objects db') pid = Found (?p'\<lparr>updated_at := Some now\<rparr>)"
      unfolding db' by (rule get_product_after_save [OF assms(5,6)]) simp_all
    then show ?thesis using True r by simp
  qed
qed


lemma beans_request:
  "body (request_for ''beans'' (Numeric x)) =
     Some \<lparr>productId = Some ''beans'', payload.quantity = Numeric x, payload.reason = None\<rparr>"
  by (simp add: request_for_def)

lemma beans_found: "get_product (Product_objects (stock_db [beans a b])) ''beans'' = Found (beans a b)"
  by (simp add: get_product_def objects_get_def stock_db_def beans_def)

lemma beans_distinct: "distinct (map Product.id (Product_objects (stock_db [beans a b])))"
  by (simp add: stock_db_def)

lemma beans_counters:
  "float_or0 (inventory_a (beans a b)) = a" "float_or0 (inventory_b (beans a b)) = b"
  by (simp_all add: beans_def float_or0_def)

lemma beans_quantity:
  "float_of_field (payload.quantity
      \<lparr>productId = Some ''beans'', payload.quantity = Numeric x, payload.reason = None\<rparr>) = Inr x"
  "productId \<lparr>productId = Some ''beans'', payload.quantity = Numeric x, payload.reason = None\<rparr>
     = Some ''beans''"
  by (simp_all add: float_of_field_def)


text \<open>
  Claim C7. A successful transfer conserves the total stock: the new \<open>inventory_a\<close>
  plus the new \<open>inventory_b\<close>, as stored and as reported in the response, equals the old
  \<open>inventory_a\<close> plus the old \<open>inventory_b\<close>, in exact arithmetic.
\<close>

theorem transfer_inventory_api_conserves:
  assumes "body request = Some data"
    and "float_of_field (payload.quantity data) = Inr q"
    and "productId data = Some pid" and "pid \<noteq> []"
    and "distinct (map Product.id (Product_objects db))"
    and "get_product (Product_objects db) pid = Found product"
    and "transfer_inventory_api now db request = (db', r)"
    and "success r"
  shows "\<exists>product' a' b'. get_product (Product_objects db') pid = Found product'
           \<and> inventory_a product' = Some a' \<and> inventory_b product' = Some b'
           \<and> newInventoryA r = Some a' \<and> newInventoryB r = Some b'
           \<and> a' + b' = float_or0 (inventory_a product) + float_or0 (inventory_b product)"
  using transfer_outcome [OF assms(1-7)] assms(8) by (auto split: if_splits)

text \<open>
  The theorem at the same transfer: 10 and 2 before, a total of 12 after.
\<close>

theorem transfer_inventory_api_conserves_witness:
  "\<exists>product' a' b'. get_product
          (Product_objects (fst (transfer_inventory_api 0 (stock_db [beans 10 2])
             (request_for ''beans'' (Numeric 4))))) ''beans'' = Found product'
        \<and> inventory_a product' = Some a' \<and> inventory_b product' = Some b'
        \<and> a' + b' = 12"
proof -
  let ?res = "transfer_inventory_api 0 (stock_db [beans 10 2]) (request_for ''beans'' (Numeric 4))"
  have s: "success (snd ?res)"
    using transfer_found [OF beans_request beans_quantity _ beans_found [of 10 2], of 0]
    by (simp add: beans_counters)
  have ne: "''beans'' \<noteq> []" by simp
  have res: "?res = (fst ?res, snd ?res)" by simp
  from transfer_inventory_api_conserves
     [OF beans_request beans_quantity ne beans_distinct [of 10 2] beans_found [of 10 2] res s]
  show ?thesis by (simp add: beans_counters) blast
qed





section \<open>Properties of the training handler\<close>

lemma train_product_cases:
  "train_product now rows product st =
     (if \<not> enough_sales rows product then Inr st
      else if order_dates_of (product_sales_of rows product) = [] then Inl ValueError_min_empty
      else Inr ((fst st)(firebase_id_or_id product \<mapsto> prediction_written now rows product),
                snd st + 1))"
  by (auto simp: train_product_def enough_sales_def prediction_written_def Let_def)

lemma train_loop_keeps:
  "train_loop now rows ps st = (st', None)
   \<Longrightarrow> \<forall>p \<in> set ps. enough_sales rows p \<longrightarrow> firebase_id_or_id p \<noteq> k
   \<Longrightarrow> fst st' k = fst st k"
proof (induction ps arbitrary: st)
  case Nil
  then show ?case by simp
next
  case (Cons p ps)
  from Cons.prems(1) obtain st1 where
    st1: "train_product now rows p st = Inr st1" and rest: "train_loop now rows ps st1 = (st', None)"
    by (auto split: sum.splits)
  have "fst st1 k = fst st k"
    using st1 Cons.prems(2) by (auto simp: train_product_cases split: if_splits)
  moreover have "fst st' k = fst st1 k"
    using Cons.IH [OF rest] Cons.prems(2) by simp
  ultimately show ?case by simp
qed




lemma predictions_log_audit [simp]:
  "MLPrediction_objects (log_audit now a u d db) = MLPrediction_objects db"
  by (simp add: log_audit_def)

lemma train_success:
  assumes "train_forecasting_model now db request = (db', r)" and "success r"
  shows "10 \<le> length (Sale_objects db)
       \<and> (\<exists>n. train_loop now (Sale_objects db) (Product_objects db) (MLPrediction_objects db, 0)
                = ((MLPrediction_objects db', n), None)
              \<and> stats r = Some (length (Sale_objects db), length (Product_objects db), n))"
  using assms
  by (auto simp: train_forecasting_model_def train_forecasting_try_def handle_def Let_def
        except_response_def split: if_splits prod.splits option.splits)

lemma enough_sales_eq:
  "enough_sales rows = (\<lambda>p. 3 \<le> length (product_sales_of rows p))"
  by (simp add: fun_eq_iff enough_sales_def)

lemma train_loop_count:
  "train_loop now rows ps st = (st', None)
   \<Longrightarrow> snd st' = snd st + length (filter (enough_sales rows) ps)"
proof (induction ps arbitrary: st)
  case Nil
  then show ?case by simp
next
  case (Cons p ps)
  from Cons.prems obtain st1 where
    st1: "train_product now rows p st = Inr st1" and rest: "train_loop now rows ps st1 = (st', None)"
    by (auto split: sum.splits)
  have "snd st1 = snd st + (if enough_sales rows p then 1 else 0)"
    using st1 by (auto simp: train_product_cases split: if_splits)
  with Cons.IH [OF rest] show ?case by simp
qed


lemma ten_sales_beans: "product_sales_of ten_sales (beans a b) = ten_sales"
  by (simp add: product_sales_of_def ten_sales_def bean_sale_def beans_def)

lemma ten_sales_flour: "product_sales_of ten_sales (flour b) = []"
  by (simp add: product_sales_of_def ten_sales_def bean_sale_def flour_def)

lemma ten_sales_length: "length ten_sales = 10"
  by (simp add: ten_sales_def)

lemma ten_sales_dates: "order_dates_of ten_sales \<noteq> []"
  by (simp add: order_dates_of_def ten_sales_def bean_sale_def List.map_filter_simps)



lemma training_db_fields:
  "Product_objects training_db = [beans 10 2, flour 7]" "Sale_objects training_db = ten_sales"
  "MLPrediction_objects training_db = Map.empty"
  by (simp_all add: training_db_def)

lemma beans_key: "firebase_id_or_id (beans a b) = ''beans''"
  by (simp add: firebase_id_or_id_def beans_def)

lemma flour_key: "firebase_id_or_id (flour b) = ''flour''"
  by (simp add: firebase_id_or_id_def flour_def)

lemma training_succeeds:
  "success (snd (train_forecasting_model 864000000000 training_db train_request))"
  by (simp add: train_forecasting_model_def train_forecasting_try_def handle_def Let_def
      training_db_fields ten_sales_length train_product_cases enough_sales_def
      ten_sales_beans ten_sales_flour ten_sales_dates)


text \<open>
  Claim C8. With fewer than 10 sales records \<open>train_forecasting_model\<close> returns a failure
  response and leaves the whole database, so the predictions and the model record, as it
  was. The loop body does nothing for a product with fewer than 3 sales records. After a
  successful run the prediction stored under the key of such a product is the one stored
  before (none, when there was none), as long as no product with at least 3 sales records
  has the same key, and the number of predictions reported is the number of products with
  at least 3 sales records.
\<close>

theorem train_forecasting_model_thresholds:
  "(length (Sale_objects db0) < 10 \<longrightarrow>
      train_forecasting_model now db0 request =
        (db0, failure (Insufficient_data_for_training (length (Sale_objects db0)))))
   \<and> (length (product_sales_of rows product) < 3 \<longrightarrow>
        train_product now rows product st = Inr st)
   \<and> (train_forecasting_model now db request = (db', r) \<and> success r
        \<and> skipped \<in> set (Product_objects db)
        \<and> length (product_sales_of (Sale_objects db) skipped) < 3
        \<and> (\<forall>p \<in> set (Product_objects db).
              3 \<le> length (product_sales_of (Sale_objects db) p)
              \<longrightarrow> firebase_id_or_id p \<noteq> firebase_id_or_id skipped)
      \<longrightarrow> MLPrediction_objects db' (firebase_id_or_id skipped)
            = MLPrediction_objects db (firebase_id_or_id skipped)
        \<and> stats r = Some (length (Sale_objects db), length (Product_objects db),
             length (filter (\<lambda>p. 3 \<le> length (product_sales_of (Sale_objects db) p))
                       (Product_objects db))))"
proof -
  have few: "length (Sale_objects db0) < 10 \<longrightarrow>
      train_forecasting_model now db0 request =
        (db0, failure (Insufficient_data_for_training (length (Sale_objects db0))))"
    by (simp add: train_forecasting_model_def train_forecasting_try_def handle_def Let_def)
  have skip: "length (product_sales_of rows product) < 3 \<longrightarrow>
        train_product now rows product st = Inr st"
    by (simp add: train_product_cases enough_sales_def)
  have run: "MLPrediction_objects db' (firebase_id_or_id skipped)
            = MLPrediction_objects db (firebase_id_or_id skipped)
        \<and> stats r = Some (length (Sale_objects db), length (Product_objects db),
             length (filter (\<lambda>p. 3 \<le> length (product_sales_of (Sale_objects db) p))
                       (Product_objects db)))"
    if a: "train_forecasting_model now db request = (db', r) \<and> success r
        \<and> skipped \<in> set (Product_objects db)
        \<and> length (product_sales_of (Sale_objects db) skipped) < 3
        \<and> (\<forall>p \<in> set (Product_objects db).
              3 \<le> length (product_sales_of (Sale_objects db) p)
              \<longrightarrow> firebase_id_or_id p \<noteq> firebase_id_or_id skipped)"
  proof -
    from a train_success [of now db request db' r] obtain n where
      loop: "train_loop now (Sale_objects db) (Product_objects db) (MLPrediction_objects db, 0)
               = ((MLPrediction_objects db', n), None)"
      and st: "stats r = Some (length (Sale_objects db), length (Product_objects db), n)"
      by blast
    have k: "\<forall>p \<in> set (Product_objects db). enough_sales (Sale_objects db) p
               \<longrightarrow> firebase_id_or_id p \<noteq> firebase_id_or_id skipped"
      using a by (simp add: enough_sales_def)
    have n: "n = length (filter (enough_sales (Sale_objects db)) (Product_objects db))"
      using train_loop_count [OF loop] by simp
    show ?thesis
      using train_loop_keeps [OF loop k] st n by (simp add: enough_sales_eq)
  qed
  from few skip run show ?thesis by blast
qed

text \<open>
  The theorem at an empty sales table, where the run fails and changes nothing, and at
  the table of ten sales of beans, where the flour, without a sale, gets no prediction
  and one prediction is reported for the two products.
\<close>

theorem train_forecasting_model_thresholds_witness:
  "train_forecasting_model 0 (stock_db [beans 10 2]) train_request =
     (stock_db [beans 10 2], failure (Insufficient_data_for_training 0))
   \<and> train_product 0 ten_sales (flour 7) (Map.empty, 0) = Inr (Map.empty, 0)
   \<and> MLPrediction_objects (fst (train_forecasting_model 864000000000 training_db train_request))
        ''flour'' = None
   \<and> stats (snd (train_forecasting_model 864000000000 training_db train_request))
        = Some (10, 2, 1)"
proof -
  let ?res = "train_forecasting_model 864000000000 training_db train_request"
  have res: "?res = (fst ?res, snd ?res)" by simp
  have h1: "length (Sale_objects (stock_db [beans 10 2])) < 10"
    by (simp add: stock_db_def)
  have h2: "length (product_sales_of ten_sales (flour 7)) < 3"
    by (simp add: ten_sales_flour)
  have h3: "?res = (fst ?res, snd ?res) \<and> success (snd ?res)
        \<and> flour 7 \<in> set (Product_objects training_db)
        \<and> length (product_sales_of (Sale_objects training_db) (flour 7)) < 3
        \<and> (\<forall>p \<in> set (Product_objects training_db).
              3 \<le> length (product_sales_of (Sale_objects training_db) p)
              \<longrightarrow> firebase_id_or_id p \<noteq> firebase_id_or_id (flour 7))"
    using training_succeeds
    by (simp add: training_db_fields ten_sales_flour beans_key flour_key)
  from train_forecasting_model_thresholds
     [where ?db0.0 = "stock_db [beans 10 2]" and now = 0 and request = train_request
        and rows = ten_sales and product = "flour 7" and st = "(Map.empty, 0)"]
     h1 h2
  have first: "train_forecasting_model 0 (stock_db [beans 10 2]) train_request =
        (stock_db [beans 10 2], failure (Insufficient_data_for_training 0))"
    and second: "train_product 0 ten_sales (flour 7) (Map.empty, 0) = Inr (Map.empty, 0)"
    by (simp_all add: stock_db_def)
  from train_forecasting_model_thresholds
     [where now = 864000000000 and db = training_db and request = train_request
        and db' = "fst ?res" and r = "snd ?res" and skipped = "flour 7"]
     h3 first second
  show ?thesis
    by (simp add: training_db_fields ten_sales_flour ten_sales_beans ten_sales_length
        flour_key stock_db_def)
qed

section \<open>Properties of the forecasting view\<close>

















section \<open>Properties of the exception handlers\<close>




end
